theory Spec2Isabelle
  imports Main
begin

section \<open>The conditional Cython build step of setup.py\<close>

text \<open>
  The development embeds the class \<^verbatim>\<open>build_cythonized\<close> of \<^verbatim>\<open>setup.py\<close>
  (its constructor, \<^verbatim>\<open>finalize_options\<close> and \<^verbatim>\<open>run\<close>) together with the
  module-level selector list and the \<^verbatim>\<open>setup_reqs\<close> computation. Python objects that
  the code copies, rebinds and compares live in an explicit object store, so that a copy
  of a dictionary is a different object with the same contents.
\<close>

subsection \<open>Objects and the distribution\<close>

type_synonym addr = nat

text \<open>An extension descriptor as the compiler returns it: a module name and its sources.\<close>

datatype extension = Extension string "string list"

text \<open>
  The two kinds of container the step handles: the command-override table (a dict from
  command names to command classes, classes written by their names) and the list of
  extension targets.
\<close>

datatype pyobj = PyDict "(string \<times> string) list" | PyList "extension list"

text \<open>Python truthiness of a container: it is true when it is not empty.\<close>

fun py_bool :: "pyobj \<Rightarrow> bool" where
  "py_bool (PyDict kvs) = (kvs \<noteq> [])"
| "py_bool (PyList xs) = (xs \<noteq> [])"

text \<open>
  The distribution object with the store its attributes point into. An attribute holds
  \<open>None\<close> (Python's \<^verbatim>\<open>None\<close>) or the address of an object; addresses below
  \<open>next_addr\<close> are allocated.
\<close>

record Distribution =
  heap :: "addr \<Rightarrow> pyobj"
  next_addr :: addr
  cmdclass :: "addr option"
  ext_modules :: "addr option"

definition alloc :: "pyobj \<Rightarrow> Distribution \<Rightarrow> addr \<times> Distribution" where
  "alloc v d = (next_addr d, d\<lparr>heap := (heap d)(next_addr d := v), next_addr := Suc (next_addr d)\<rparr>)"

text \<open>\<^verbatim>\<open>x.copy()\<close>: a new object with the contents of the one at \<open>a\<close>.\<close>

definition py_copy :: "addr \<Rightarrow> Distribution \<Rightarrow> addr \<times> Distribution" where
  "py_copy a d = alloc (heap d a) d"

text \<open>\<^verbatim>\<open>x.copy() if x else None\<close> for an attribute value \<open>x\<close>.\<close>

fun copy_or_None :: "addr option \<Rightarrow> Distribution \<Rightarrow> addr option \<times> Distribution" where
  "copy_or_None None d = (None, d)"
| "copy_or_None (Some a) d =
     (if py_bool (heap d a) then (case py_copy a d of (a', d') \<Rightarrow> (Some a', d'))
      else (None, d))"

subsection \<open>Errors, effects and the collaborators\<close>

datatype error =
    KeyError string
  | ImportError string
  | ConfigurationError string
  | CompilationError string
  | ExecutionError string

datatype log_level = INFO

text \<open>
  The effects of the command that an observer of the build sees, in the order they
  happen: the update of \<^verbatim>\<open>stored_options\<close>, a message passed to \<^verbatim>\<open>announce\<close>,
  an assignment to an attribute of the distribution, and a call of an inherited method.
\<close>

datatype event =
    StoreOptions "addr option" "addr option"
  | Announce log_level string
  | SetCmdclass "addr option"
  | SetExtModules "addr option"
  | SuperFinalizeOptions
  | SuperRun

text \<open>
  What the script takes from outside: the process environment, \<^verbatim>\<open>os.path.sep\<close>, the
  selector list read from the module's globals, the import of Cython (its version, or the
  error the import raises), \<^verbatim>\<open>cythonize\<close> (files, language level and exclusion patterns
  to descriptors, or an error), and the two methods of distutils' \<^verbatim>\<open>build\<close> command that
  the class inherits. An inherited method acts on the distribution and either returns or
  raises, leaving the distribution as it was at that moment.
\<close>

record env =
  getenv :: "string \<Rightarrow> string option"
  path_sep :: string
  modules_to_compile :: "string list"
  import_Cython :: "error + string"
  cythonize :: "string list \<Rightarrow> nat \<Rightarrow> string list \<Rightarrow> error + extension list"
  build_finalize_options :: "Distribution \<Rightarrow> error \<times> Distribution + Distribution"
  build_run :: "Distribution \<Rightarrow> error \<times> Distribution + Distribution"

subsection \<open>Module level: the selector list and the build requirements\<close>

definition MODULES_TO_COMPILE :: "string list" where
  "MODULES_TO_COMPILE =
    [''nltk.chat.*'', ''nltk.chunk.*'', ''nltk.cluster.*'', ''nltk.draw.*'', ''nltk.grammar'',
     ''nltk.lm.*'', ''nltk.metrics.*'', ''nltk.misc.*'', ''nltk.parse.chart'',
     ''nltk.probability'', ''nltk.sem.*'', ''nltk.sentiment.*'', ''nltk.stem.*'',
     ''nltk.tbl.*'', ''nltk.tokenize.*'', ''nltk.translate.*'', ''nltk.twitter.*'',
     ''nltk.util'']"

definition setup_reqs :: "env \<Rightarrow> string list" where
  "setup_reqs E =
     (if getenv E ''CYTHONIZE_NLTK'' = Some ''true'' then [] @ [''Cython >= 0.28.5''] else [])"

subsection \<open>The command\<close>

text \<open>
  The instance: its two attributes, the distribution it was created for, and the effects
  it has had so far.
\<close>

record build_cythonized =
  stored_options :: "string \<rightharpoonup> addr option"
  should_cythonize :: bool
  distribution :: Distribution
  effects :: "event list"

text \<open>\<^verbatim>\<open>__init__\<close>: the flag is read from the environment here and nowhere else.\<close>

definition init :: "env \<Rightarrow> Distribution \<Rightarrow> build_cythonized" where
  "init E d =
     \<lparr>stored_options = Map.empty,
      should_cythonize = (getenv E ''CYTHONIZE_NLTK'' = Some ''true''),
      distribution = d,
      effects = []\<rparr>"

text \<open>\<^verbatim>\<open>s.replace(c, new)\<close> for a one-character pattern.\<close>

definition replace_char :: "char \<Rightarrow> string \<Rightarrow> string \<Rightarrow> string" where
  "replace_char c new s = concat (map (\<lambda>x. if x = c then new else [x]) s)"

text \<open>The list comprehension that turns selectors into the paths given to the compiler.\<close>

definition module_files :: "string \<Rightarrow> string list \<Rightarrow> string list" where
  "module_files sep names = map (\<lambda>name. replace_char CHR ''.'' sep name @ ''.py'') names"

text \<open>\<^verbatim>\<open>"%d" % n\<close> for a length.\<close>

fun str_nat :: "nat \<Rightarrow> string" where
  "str_nat n =
     (if n < 10 then [''0123456789'' ! n]
      else str_nat (n div 10) @ [''0123456789'' ! (n mod 10)])"

declare str_nat.simps [simp del]

definition compiling_message :: "nat \<Rightarrow> string \<Rightarrow> string" where
  "compiling_message n version =
     ''Compiling '' @ str_nat n @ '' modules using Cython '' @ version"

text \<open>The dictionary update of lines 98 to 101: the two copies, then the update.\<close>

definition store_options :: "build_cythonized \<Rightarrow> build_cythonized" where
  "store_options s =
     (case copy_or_None (cmdclass (distribution s)) (distribution s) of (c, d1) \<Rightarrow>
      case copy_or_None (ext_modules d1) d1 of (x, d2) \<Rightarrow>
        s\<lparr>stored_options := (stored_options s)(''cmdclass'' \<mapsto> c, ''ext_modules'' \<mapsto> x),
          distribution := d2,
          effects := effects s @ [StoreOptions c x]\<rparr>)"

definition announce :: "string \<Rightarrow> log_level \<Rightarrow> build_cythonized \<Rightarrow> build_cythonized" where
  "announce msg level s = s\<lparr>effects := effects s @ [Announce level msg]\<rparr>"

text \<open>The assignment of line 108: the list the compiler returned is a new object.\<close>

definition assign_compiled :: "extension list \<Rightarrow> build_cythonized \<Rightarrow> build_cythonized" where
  "assign_compiled exts s =
     (case alloc (PyList exts) (distribution s) of (r, d) \<Rightarrow>
        s\<lparr>distribution := d\<lparr>ext_modules := Some r\<rparr>,
          effects := effects s @ [SetExtModules (Some r)]\<rparr>)"

definition super_finalize_options ::
  "env \<Rightarrow> build_cythonized \<Rightarrow> error \<times> build_cythonized + build_cythonized" where
  "super_finalize_options E s =
     (let s' = s\<lparr>effects := effects s @ [SuperFinalizeOptions]\<rparr> in
      case build_finalize_options E (distribution s) of
        Inl (e, d) \<Rightarrow> Inl (e, s'\<lparr>distribution := d\<rparr>)
      | Inr d \<Rightarrow> Inr (s'\<lparr>distribution := d\<rparr>))"

definition finalize_options ::
  "env \<Rightarrow> build_cythonized \<Rightarrow> error \<times> build_cythonized + build_cythonized" where
  "finalize_options E s =
     (if should_cythonize s then
        (let s1 = store_options s in
         case import_Cython E of
           Inl e \<Rightarrow> Inl (e, s1)
         | Inr version \<Rightarrow>
             (let files = module_files (path_sep E) (modules_to_compile E);
                  s2 = announce (compiling_message (length files) version) INFO s1
              in case cythonize E files 3 [''**/__init__.py''] of
                   Inl e \<Rightarrow> Inl (e, s2)
                 | Inr exts \<Rightarrow> super_finalize_options E (assign_compiled exts s2)))
      else super_finalize_options E s)"

definition super_run ::
  "env \<Rightarrow> build_cythonized \<Rightarrow> error \<times> build_cythonized + build_cythonized" where
  "super_run E s =
     (let s' = s\<lparr>effects := effects s @ [SuperRun]\<rparr> in
      case build_run E (distribution s) of
        Inl (e, d) \<Rightarrow> Inl (e, s'\<lparr>distribution := d\<rparr>)
      | Inr d \<Rightarrow> Inr (s'\<lparr>distribution := d\<rparr>))"

text \<open>
  \<^verbatim>\<open>run\<close>: the two assignments follow the inherited call; each reads its key from
  \<^verbatim>\<open>stored_options\<close>, which raises \<^verbatim>\<open>KeyError\<close> when the key is not there.
\<close>

definition run ::
  "env \<Rightarrow> build_cythonized \<Rightarrow> error \<times> build_cythonized + build_cythonized" where
  "run E s =
     (case super_run E s of
        Inl r \<Rightarrow> Inl r
      | Inr s1 \<Rightarrow>
          if should_cythonize s1 then
            (case stored_options s1 ''cmdclass'' of
               None \<Rightarrow> Inl (KeyError ''cmdclass'', s1)
             | Some c \<Rightarrow>
                 (let s2 = s1\<lparr>distribution := (distribution s1)\<lparr>cmdclass := c\<rparr>,
                              effects := effects s1 @ [SetCmdclass c]\<rparr>
                  in case stored_options s2 ''ext_modules'' of
                       None \<Rightarrow> Inl (KeyError ''ext_modules'', s2)
                     | Some x \<Rightarrow>
                         Inr (s2\<lparr>distribution := (distribution s2)\<lparr>ext_modules := x\<rparr>,
                                 effects := effects s2 @ [SetExtModules x]\<rparr>)))
          else Inr s1)"

text \<open>
  One build invocation as the framework drives it: the configuration hook, then the
  execution hook; an error of the first ends the invocation.
\<close>

definition build ::
  "env \<Rightarrow> build_cythonized \<Rightarrow> error \<times> build_cythonized + build_cythonized" where
  "build E s = (case finalize_options E s of Inl r \<Rightarrow> Inl r | Inr s1 \<Rightarrow> run E s1)"

subsection \<open>Notions the properties are stated with\<close>

text \<open>The state an invocation ends in, whether it returned or raised.\<close>

fun final_state :: "error \<times> build_cythonized + build_cythonized \<Rightarrow> build_cythonized" where
  "final_state (Inl (e, s)) = s"
| "final_state (Inr s) = s"

fun raised :: "error \<times> build_cythonized + build_cythonized \<Rightarrow> error option" where
  "raised (Inl (e, s)) = Some e"
| "raised (Inr s) = None"

text \<open>
  The value of an attribute: \<open>None\<close> for Python's \<^verbatim>\<open>None\<close>, else the contents of the
  object it refers to. Two attributes are equal by value when these agree, and are the
  same object when the addresses agree.
\<close>

definition obj_value :: "Distribution \<Rightarrow> addr option \<Rightarrow> pyobj option" where
  "obj_value d r = map_option (heap d) r"

text \<open>The test \<^verbatim>\<open>if x\<close> on an attribute value.\<close>

definition truthy :: "Distribution \<Rightarrow> addr option \<Rightarrow> bool" where
  "truthy d r = (case r of None \<Rightarrow> False | Some a \<Rightarrow> py_bool (heap d a))"

text \<open>What \<^verbatim>\<open>x.copy() if x else None\<close> holds by value.\<close>

definition snapshot_value :: "Distribution \<Rightarrow> addr option \<Rightarrow> pyobj option" where
  "snapshot_value d r = (if truthy d r then obj_value d r else None)"

text \<open>The objects the distribution refers to, and the invariant that they exist.\<close>

definition roots :: "Distribution \<Rightarrow> addr set" where
  "roots d = set_option (cmdclass d) \<union> set_option (ext_modules d)"

definition allocated :: "Distribution \<Rightarrow> bool" where
  "allocated d = (\<forall>a\<in>roots d. a < next_addr d)"

text \<open>
  The contract of an inherited method that returns: it keeps the invariant, allocates
  upwards only, and an object the distribution did not refer to is neither changed nor
  picked up. The inherited command knows nothing of \<^verbatim>\<open>stored_options\<close>, so the copies
  held there are out of its reach.
\<close>

definition respects_store ::
  "(Distribution \<Rightarrow> error \<times> Distribution + Distribution) \<Rightarrow> bool" where
  "respects_store f =
     (\<forall>d d'. allocated d \<and> f d = Inr d' \<longrightarrow>
        allocated d' \<and> next_addr d \<le> next_addr d' \<and>
        (\<forall>a<next_addr d. a \<notin> roots d \<longrightarrow> a \<notin> roots d' \<and> heap d' a = heap d a))"

text \<open>An unreferenced, allocated object (or \<^verbatim>\<open>None\<close>) with a known value.\<close>

definition kept :: "Distribution \<Rightarrow> addr option \<Rightarrow> pyobj option \<Rightarrow> bool" where
  "kept d r v =
     (case r of None \<Rightarrow> v = None
      | Some a \<Rightarrow> a < next_addr d \<and> a \<notin> roots d \<and> v = Some (heap d a))"

text \<open>A reference made between two states of the store, or \<^verbatim>\<open>None\<close>.\<close>

definition fresh :: "Distribution \<Rightarrow> Distribution \<Rightarrow> addr option \<Rightarrow> bool" where
  "fresh d d' r = (case r of None \<Rightarrow> True | Some a \<Rightarrow> next_addr d \<le> a \<and> a < next_addr d')"

text \<open>The state of the command when the inherited configuration is called.\<close>

definition compile_stage ::
  "env \<Rightarrow> string \<Rightarrow> extension list \<Rightarrow> build_cythonized \<Rightarrow> build_cythonized" where
  "compile_stage E v exts s =
     assign_compiled exts
       (announce (compiling_message (length (module_files (path_sep E) (modules_to_compile E))) v)
          INFO (store_options s))"

text \<open>Two states of the distribution agree on the two attributes, by value.\<close>

definition same_fields :: "Distribution \<Rightarrow> Distribution \<Rightarrow> bool" where
  "same_fields d d' =
     (obj_value d' (cmdclass d') = obj_value d (cmdclass d) \<and>
      obj_value d' (ext_modules d') = obj_value d (ext_modules d))"

text \<open>The inherited command alone, on the distribution.\<close>

definition inherited_build ::
  "env \<Rightarrow> Distribution \<Rightarrow> error \<times> Distribution + Distribution" where
  "inherited_build E d =
     (case build_finalize_options E d of Inl r \<Rightarrow> Inl r | Inr d1 \<Rightarrow> build_run E d1)"

text \<open>The write-backs of \<^verbatim>\<open>run\<close> among the effects: only \<^verbatim>\<open>run\<close> assigns \<^verbatim>\<open>cmdclass\<close>.\<close>

fun is_write_back :: "event \<Rightarrow> bool" where
  "is_write_back (SetCmdclass c) = True"
| "is_write_back _ = False"

definition write_backs :: "event list \<Rightarrow> nat" where
  "write_backs es = length (filter is_write_back es)"

text \<open>The assignments to attributes of the distribution, and the progress messages.\<close>

fun assigns :: "event \<Rightarrow> bool" where
  "assigns (SetCmdclass c) = True"
| "assigns (SetExtModules x) = True"
| "assigns _ = False"

fun is_message :: "event \<Rightarrow> bool" where
  "is_message (Announce level msg) = True"
| "is_message _ = False"

subsection \<open>Concrete builds\<close>

text \<open>
  The distribution that \<^verbatim>\<open>setup(...)\<close> of the script creates: the command table holds
  the one override, and no extension modules are given.
\<close>

definition nltk_distribution :: Distribution where
  "nltk_distribution =
     \<lparr>heap = (\<lambda>_. PyList [])(0 := PyDict [(''build'', ''build_cythonized'')]),
      next_addr = 1, cmdclass = Some 0, ext_modules = None\<rparr>"

text \<open>The same with a hand-written extension module, and with an empty list of them.\<close>

definition ext_distribution :: Distribution where
  "ext_distribution =
     \<lparr>heap = (\<lambda>_. PyList [])(0 := PyDict [(''build'', ''build_cythonized'')],
                               1 := PyList [Extension ''nltk.speedups'' [''nltk/speedups.c'']]),
      next_addr = 2, cmdclass = Some 0, ext_modules = Some 1\<rparr>"

definition empty_ext_distribution :: Distribution where
  "empty_ext_distribution =
     \<lparr>heap = (\<lambda>_. PyList [])(0 := PyDict [(''build'', ''build_cythonized'')]),
      next_addr = 2, cmdclass = Some 0, ext_modules = Some 1\<rparr>"

text \<open>
  An inherited execution that works on the distribution in place: it overwrites the
  command table it finds and drops the extension modules.
\<close>

definition in_place_run :: "Distribution \<Rightarrow> error \<times> Distribution + Distribution" where
  "in_place_run d =
     Inr (case cmdclass d of
            None \<Rightarrow> d\<lparr>ext_modules := None\<rparr>
          | Some a \<Rightarrow> d\<lparr>heap := (heap d)(a := PyDict [(''build_ext'', ''build_ext'')]),
                        ext_modules := None\<rparr>)"

text \<open>
  An inherited execution as distutils runs it: looking up the class of a sub-command
  enters it into the command table, in place.
\<close>

definition caching_run :: "Distribution \<Rightarrow> error \<times> Distribution + Distribution" where
  "caching_run d =
     Inr (case cmdclass d of
            None \<Rightarrow> d
          | Some a \<Rightarrow>
              (case heap d a of
                 PyDict kvs \<Rightarrow> d\<lparr>heap := (heap d)(a := PyDict (kvs @ [(''build_py'', ''build_py'')]))\<rparr>
               | PyList xs \<Rightarrow> d))"

definition failing_run :: "Distribution \<Rightarrow> error \<times> Distribution + Distribution" where
  "failing_run d = Inl (ExecutionError ''command cc failed'', d)"

text \<open>A build on a POSIX system with the toggle set and a compiler that accepts every file.\<close>

definition posix_env :: env where
  "posix_env =
     \<lparr>getenv = Map.empty(''CYTHONIZE_NLTK'' \<mapsto> ''true''),
      path_sep = ''/'',
      modules_to_compile = MODULES_TO_COMPILE,
      import_Cython = Inr ''0.29.13'',
      cythonize = (\<lambda>files level exclude. Inr (map (\<lambda>f. Extension f [f]) files)),
      build_finalize_options = Inr,
      build_run = in_place_run\<rparr>"

definition scenario_env :: env where
  "scenario_env = posix_env\<lparr>modules_to_compile := [''pkgA.mod1'', ''pkgB.*'']\<rparr>"

definition failing_run_env :: env where
  "failing_run_env = posix_env\<lparr>build_run := failing_run\<rparr>"

definition missing_module_env :: env where
  "missing_module_env =
     posix_env\<lparr>cythonize := (\<lambda>files level exclude. Inl (ConfigurationError ''nltk/grammar.py''))\<rparr>"

definition no_cython_env :: env where
  "no_cython_env = posix_env\<lparr>import_Cython := Inl (ImportError ''No module named Cython'')\<rparr>"

definition unset_env :: env where
  "unset_env = posix_env\<lparr>getenv := Map.empty, build_run := caching_run\<rparr>"

section \<open>Properties of the model\<close>

subsection \<open>The store\<close>

lemma kept_obj_value: "kept d r v \<Longrightarrow> obj_value d r = v"
  by (auto simp: kept_def obj_value_def split: option.splits)

lemma respects_store_kept:
  assumes "respects_store f" "allocated d" "f d = Inr d'" "kept d r v"
  shows "kept d' r v \<and> allocated d'"
proof -
  from assms(1-3) have a: "allocated d'" and n: "next_addr d \<le> next_addr d'"
    and k: "\<And>a. a < next_addr d \<Longrightarrow> a \<notin> roots d \<Longrightarrow> a \<notin> roots d' \<and> heap d' a = heap d a"
    unfolding respects_store_def by blast+
  show ?thesis
  proof (cases r)
    case None
    with assms(4) a show ?thesis by (simp add: kept_def)
  next
    case (Some x)
    with assms(4) have "x < next_addr d" "x \<notin> roots d" "v = Some (heap d x)"
      by (simp_all add: kept_def)
    with k[of x] n a Some show ?thesis by (simp add: kept_def)
  qed
qed

lemma respects_store_Inr: "respects_store Inr"
  by (simp add: respects_store_def)

lemma respects_store_in_place_run: "respects_store in_place_run"
  by (auto simp: respects_store_def in_place_run_def allocated_def roots_def split: option.splits)

lemma copy_or_None_frame:
  assumes "copy_or_None r d = (c, d')"
  shows "cmdclass d' = cmdclass d" "ext_modules d' = ext_modules d"
    "next_addr d \<le> next_addr d'" "\<And>a. a < next_addr d \<Longrightarrow> heap d' a = heap d a"
  using assms
  by (cases r; auto simp: py_copy_def alloc_def split: if_splits)+

lemma copy_or_None_fresh:
  assumes "copy_or_None r d = (c, d')"
  shows "fresh d d' c"
  using assms by (cases r; auto simp: py_copy_def alloc_def fresh_def split: if_splits)

lemma copy_or_None_value:
  assumes "copy_or_None r d = (c, d')"
  shows "obj_value d' c = snapshot_value d r"
  using assms
  by (cases r; auto simp: py_copy_def alloc_def snapshot_value_def truthy_def obj_value_def
      split: if_splits)

lemma snapshot_value_None: "snapshot_value d r = None \<longleftrightarrow> \<not> truthy d r"
  by (cases r) (simp_all add: snapshot_value_def truthy_def obj_value_def)

lemma obj_value_None: "obj_value d r = None \<longleftrightarrow> r = None"
  by (simp add: obj_value_def)

subsection \<open>The shape of a configuration and of a complete invocation\<close>

lemma store_options_shape:
  obtains c x d2 where
    "store_options s = s\<lparr>stored_options := (stored_options s)(''cmdclass'' \<mapsto> c, ''ext_modules'' \<mapsto> x),
        distribution := d2, effects := effects s @ [StoreOptions c x]\<rparr>"
    "cmdclass d2 = cmdclass (distribution s)" "ext_modules d2 = ext_modules (distribution s)"
    "next_addr (distribution s) \<le> next_addr d2"
    "fresh (distribution s) d2 c" "fresh (distribution s) d2 x"
    "\<And>a. a < next_addr (distribution s) \<Longrightarrow> heap d2 a = heap (distribution s) a"
    "allocated (distribution s) \<Longrightarrow>
       obj_value d2 c = snapshot_value (distribution s) (cmdclass (distribution s)) \<and>
       obj_value d2 x = snapshot_value (distribution s) (ext_modules (distribution s))"
proof -
  define d where "d = distribution s"
  obtain c d1 where 1: "copy_or_None (cmdclass d) d = (c, d1)" by (cases "copy_or_None (cmdclass d) d")
  obtain x d2 where 2: "copy_or_None (ext_modules d1) d1 = (x, d2)" by (cases "copy_or_None (ext_modules d1) d1")
  note f1 = copy_or_None_frame[OF 1] and f2 = copy_or_None_frame[OF 2]
  have shape: "store_options s = s\<lparr>stored_options := (stored_options s)(''cmdclass'' \<mapsto> c, ''ext_modules'' \<mapsto> x),
        distribution := d2, effects := effects s @ [StoreOptions c x]\<rparr>"
    using 1 2 by (simp add: store_options_def d_def)
  have fr1: "fresh d d2 c"
    using copy_or_None_fresh[OF 1] f2(3) by (auto simp: fresh_def split: option.splits)
  have fr2: "fresh d d2 x"
    using copy_or_None_fresh[OF 2] f1(3) by (auto simp: fresh_def split: option.splits)
  have hp: "\<And>a. a < next_addr d \<Longrightarrow> heap d2 a = heap d a"
    using f1(3,4) f2(4) by (metis less_le_trans)
  have vals: "obj_value d2 c = snapshot_value d (cmdclass d) \<and> obj_value d2 x = snapshot_value d (ext_modules d)"
    if al: "allocated d"
  proof
    have "obj_value d1 c = snapshot_value d (cmdclass d)" by (rule copy_or_None_value[OF 1])
    moreover have "obj_value d2 c = obj_value d1 c"
    proof (cases c)
      case None then show ?thesis by (simp add: obj_value_def)
    next
      case (Some a)
      with copy_or_None_fresh[OF 1] have "a < next_addr d1" by (simp add: fresh_def)
      with f2(4) Some show ?thesis by (simp add: obj_value_def)
    qed
    ultimately show "obj_value d2 c = snapshot_value d (cmdclass d)" by simp
    have "obj_value d2 x = snapshot_value d1 (ext_modules d1)" by (rule copy_or_None_value[OF 2])
    moreover have "snapshot_value d1 (ext_modules d1) = snapshot_value d (ext_modules d)"
    proof (cases "ext_modules d")
      case None then show ?thesis using f1(2) by (simp add: snapshot_value_def truthy_def obj_value_def)
    next
      case (Some a)
      with al have "a < next_addr d" by (simp add: allocated_def roots_def)
      with f1(4) have "heap d1 a = heap d a" by simp
      with Some f1(2) show ?thesis by (simp add: snapshot_value_def truthy_def obj_value_def)
    qed
    ultimately show "obj_value d2 x = snapshot_value d (ext_modules d)" by simp
  qed
  show ?thesis
    using that[OF shape[unfolded d_def] _ _ _ fr1[unfolded d_def] fr2[unfolded d_def] hp[unfolded d_def]] vals f1 f2
    unfolding d_def by auto
qed


lemma finalize_options_returns:
  assumes "should_cythonize s" "finalize_options E s = Inr s1"
  obtains v exts d4 where
    "import_Cython E = Inr v"
    "cythonize E (module_files (path_sep E) (modules_to_compile E)) 3 [''**/__init__.py''] = Inr exts"
    "build_finalize_options E (distribution (compile_stage E v exts s)) = Inr d4"
    "s1 = (compile_stage E v exts s)\<lparr>distribution := d4,
             effects := effects (compile_stage E v exts s) @ [SuperFinalizeOptions]\<rparr>"
  using assms
  by (auto simp: finalize_options_def super_finalize_options_def compile_stage_def Let_def
      split: sum.splits prod.splits)

lemma run_returns:
  assumes "should_cythonize s" "run E s = Inr s'"
  obtains d5 c x where
    "build_run E (distribution s) = Inr d5"
    "stored_options s ''cmdclass'' = Some c" "stored_options s ''ext_modules'' = Some x"
    "s' = s\<lparr>distribution := d5\<lparr>cmdclass := c, ext_modules := x\<rparr>,
            effects := effects s @ [SuperRun, SetCmdclass c, SetExtModules x]\<rparr>"
  using assms
  by (auto simp: run_def super_run_def Let_def split: sum.splits prod.splits option.splits if_splits)

lemma compile_stage_shape:
  obtains c x d2 where
    "compile_stage E v exts s =
       s\<lparr>stored_options := (stored_options s)(''cmdclass'' \<mapsto> c, ''ext_modules'' \<mapsto> x),
         distribution := d2\<lparr>heap := (heap d2)(next_addr d2 := PyList exts),
                            next_addr := Suc (next_addr d2), ext_modules := Some (next_addr d2)\<rparr>,
         effects := effects s @ [StoreOptions c x,
            Announce INFO (compiling_message (length (module_files (path_sep E) (modules_to_compile E))) v),
            SetExtModules (Some (next_addr d2))]\<rparr>"
    "cmdclass d2 = cmdclass (distribution s)" "ext_modules d2 = ext_modules (distribution s)"
    "next_addr (distribution s) \<le> next_addr d2"
    "fresh (distribution s) d2 c" "fresh (distribution s) d2 x"
    "\<And>a. a < next_addr (distribution s) \<Longrightarrow> heap d2 a = heap (distribution s) a"
    "allocated (distribution s) \<Longrightarrow>
       obj_value d2 c = snapshot_value (distribution s) (cmdclass (distribution s)) \<and>
       obj_value d2 x = snapshot_value (distribution s) (ext_modules (distribution s))"
proof -
  obtain c x d2 where so:
    "store_options s = s\<lparr>stored_options := (stored_options s)(''cmdclass'' \<mapsto> c, ''ext_modules'' \<mapsto> x),
        distribution := d2, effects := effects s @ [StoreOptions c x]\<rparr>"
    "cmdclass d2 = cmdclass (distribution s)" "ext_modules d2 = ext_modules (distribution s)"
    "next_addr (distribution s) \<le> next_addr d2"
    "fresh (distribution s) d2 c" "fresh (distribution s) d2 x"
    "\<And>a. a < next_addr (distribution s) \<Longrightarrow> heap d2 a = heap (distribution s) a"
    "allocated (distribution s) \<Longrightarrow>
       obj_value d2 c = snapshot_value (distribution s) (cmdclass (distribution s)) \<and>
       obj_value d2 x = snapshot_value (distribution s) (ext_modules (distribution s))"
    by (rule store_options_shape[of s]) blast
  have "compile_stage E v exts s =
       s\<lparr>stored_options := (stored_options s)(''cmdclass'' \<mapsto> c, ''ext_modules'' \<mapsto> x),
         distribution := d2\<lparr>heap := (heap d2)(next_addr d2 := PyList exts),
                            next_addr := Suc (next_addr d2), ext_modules := Some (next_addr d2)\<rparr>,
         effects := effects s @ [StoreOptions c x,
            Announce INFO (compiling_message (length (module_files (path_sep E) (modules_to_compile E))) v),
            SetExtModules (Some (next_addr d2))]\<rparr>"
    by (simp add: compile_stage_def so(1) announce_def assign_compiled_def alloc_def)
  then show ?thesis using so(2-) that by blast
qed


lemma build_returns:
  assumes on: "should_cythonize s" and ret: "build E s = Inr s'"
  obtains v exts c x d2 d4 d5 where
    "import_Cython E = Inr v"
    "cythonize E (module_files (path_sep E) (modules_to_compile E)) 3 [''**/__init__.py''] = Inr exts"
    "compile_stage E v exts s =
       s\<lparr>stored_options := (stored_options s)(''cmdclass'' \<mapsto> c, ''ext_modules'' \<mapsto> x),
         distribution := d2\<lparr>heap := (heap d2)(next_addr d2 := PyList exts),
                            next_addr := Suc (next_addr d2), ext_modules := Some (next_addr d2)\<rparr>,
         effects := effects s @ [StoreOptions c x,
            Announce INFO (compiling_message (length (module_files (path_sep E) (modules_to_compile E))) v),
            SetExtModules (Some (next_addr d2))]\<rparr>"
    "cmdclass d2 = cmdclass (distribution s)" "ext_modules d2 = ext_modules (distribution s)"
    "next_addr (distribution s) \<le> next_addr d2"
    "fresh (distribution s) d2 c" "fresh (distribution s) d2 x"
    "allocated (distribution s) \<Longrightarrow>
       obj_value d2 c = snapshot_value (distribution s) (cmdclass (distribution s)) \<and>
       obj_value d2 x = snapshot_value (distribution s) (ext_modules (distribution s))"
    "build_finalize_options E (distribution (compile_stage E v exts s)) = Inr d4"
    "build_run E d4 = Inr d5"
    "s' = s\<lparr>stored_options := (stored_options s)(''cmdclass'' \<mapsto> c, ''ext_modules'' \<mapsto> x),
            distribution := d5\<lparr>cmdclass := c, ext_modules := x\<rparr>,
            effects := effects s @ [StoreOptions c x,
              Announce INFO (compiling_message (length (module_files (path_sep E) (modules_to_compile E))) v),
              SetExtModules (Some (next_addr d2)), SuperFinalizeOptions, SuperRun,
              SetCmdclass c, SetExtModules x]\<rparr>"
proof -
  from ret obtain s1 where fin: "finalize_options E s = Inr s1" and rn: "run E s1 = Inr s'"
    by (auto simp: build_def split: sum.splits)
  from finalize_options_returns[OF on fin] obtain v exts d4 where
    imp: "import_Cython E = Inr v"
    and cy: "cythonize E (module_files (path_sep E) (modules_to_compile E)) 3 [''**/__init__.py''] = Inr exts"
    and bf: "build_finalize_options E (distribution (compile_stage E v exts s)) = Inr d4"
    and s1: "s1 = (compile_stage E v exts s)\<lparr>distribution := d4,
             effects := effects (compile_stage E v exts s) @ [SuperFinalizeOptions]\<rparr>"
    by blast
  obtain c x d2 where cs:
    "compile_stage E v exts s =
       s\<lparr>stored_options := (stored_options s)(''cmdclass'' \<mapsto> c, ''ext_modules'' \<mapsto> x),
         distribution := d2\<lparr>heap := (heap d2)(next_addr d2 := PyList exts),
                            next_addr := Suc (next_addr d2), ext_modules := Some (next_addr d2)\<rparr>,
         effects := effects s @ [StoreOptions c x,
            Announce INFO (compiling_message (length (module_files (path_sep E) (modules_to_compile E))) v),
            SetExtModules (Some (next_addr d2))]\<rparr>"
    "cmdclass d2 = cmdclass (distribution s)" "ext_modules d2 = ext_modules (distribution s)"
    "next_addr (distribution s) \<le> next_addr d2"
    "fresh (distribution s) d2 c" "fresh (distribution s) d2 x"
    "allocated (distribution s) \<Longrightarrow>
       obj_value d2 c = snapshot_value (distribution s) (cmdclass (distribution s)) \<and>
       obj_value d2 x = snapshot_value (distribution s) (ext_modules (distribution s))"
    by (rule compile_stage_shape[of E v exts s]) blast
  have on1: "should_cythonize s1" using on by (simp add: s1 cs(1))
  from run_returns[OF on1 rn] obtain d5 c' x' where
    br: "build_run E (distribution s1) = Inr d5"
    and k1: "stored_options s1 ''cmdclass'' = Some c'" and k2: "stored_options s1 ''ext_modules'' = Some x'"
    and s': "s' = s1\<lparr>distribution := d5\<lparr>cmdclass := c', ext_modules := x'\<rparr>,
            effects := effects s1 @ [SuperRun, SetCmdclass c', SetExtModules x']\<rparr>"
    by blast
  have c': "c' = c" and x': "x' = x" using k1 k2 by (simp_all add: s1 cs(1))
  have br': "build_run E d4 = Inr d5" using br by (simp add: s1)
  have fin': "s' = s\<lparr>stored_options := (stored_options s)(''cmdclass'' \<mapsto> c, ''ext_modules'' \<mapsto> x),
            distribution := d5\<lparr>cmdclass := c, ext_modules := x\<rparr>,
            effects := effects s @ [StoreOptions c x,
              Announce INFO (compiling_message (length (module_files (path_sep E) (modules_to_compile E))) v),
              SetExtModules (Some (next_addr d2)), SuperFinalizeOptions, SuperRun,
              SetCmdclass c, SetExtModules x]\<rparr>"
    by (simp add: s' s1 cs(1) c' x')
  show ?thesis
    by (rule that[OF imp cy cs(1) cs(2) cs(3) cs(4) cs(5) cs(6) cs(7) bf br' fin'])
qed

lemma build_restores_values:
  assumes on: "should_cythonize s" and ret: "build E s = Inr s'"
    and al: "allocated (distribution s)"
    and rf: "respects_store (build_finalize_options E)" and rr: "respects_store (build_run E)"
  shows "obj_value (distribution s') (cmdclass (distribution s')) =
           snapshot_value (distribution s) (cmdclass (distribution s))"
    and "obj_value (distribution s') (ext_modules (distribution s')) =
           snapshot_value (distribution s) (ext_modules (distribution s))"
    and "allocated (distribution s')"
proof -
  define d0 where "d0 = distribution s"
  from build_returns[OF on ret] obtain v exts c x d2 d4 d5 where
    cs: "compile_stage E v exts s =
       s\<lparr>stored_options := (stored_options s)(''cmdclass'' \<mapsto> c, ''ext_modules'' \<mapsto> x),
         distribution := d2\<lparr>heap := (heap d2)(next_addr d2 := PyList exts),
                            next_addr := Suc (next_addr d2), ext_modules := Some (next_addr d2)\<rparr>,
         effects := effects s @ [StoreOptions c x,
            Announce INFO (compiling_message (length (module_files (path_sep E) (modules_to_compile E))) v),
            SetExtModules (Some (next_addr d2))]\<rparr>"
    and cm: "cmdclass d2 = cmdclass d0" and nx: "next_addr d0 \<le> next_addr d2"
    and fc: "fresh d0 d2 c" and fx: "fresh d0 d2 x"
    and vals: "obj_value d2 c = snapshot_value d0 (cmdclass d0)"
              "obj_value d2 x = snapshot_value d0 (ext_modules d0)"
    and bf: "build_finalize_options E (distribution (compile_stage E v exts s)) = Inr d4"
    and br: "build_run E d4 = Inr d5"
    and s': "s' = s\<lparr>stored_options := (stored_options s)(''cmdclass'' \<mapsto> c, ''ext_modules'' \<mapsto> x),
            distribution := d5\<lparr>cmdclass := c, ext_modules := x\<rparr>,
            effects := effects s @ [StoreOptions c x,
              Announce INFO (compiling_message (length (module_files (path_sep E) (modules_to_compile E))) v),
              SetExtModules (Some (next_addr d2)), SuperFinalizeOptions, SuperRun,
              SetCmdclass c, SetExtModules x]\<rparr>"
    using al unfolding d0_def by metis
  define d3 where "d3 = d2\<lparr>heap := (heap d2)(next_addr d2 := PyList exts),
                            next_addr := Suc (next_addr d2), ext_modules := Some (next_addr d2)\<rparr>"
  have d3: "distribution (compile_stage E v exts s) = d3" by (simp add: cs d3_def)
  have al0: "\<And>a. cmdclass d0 = Some a \<Longrightarrow> a < next_addr d0"
    using al by (simp add: allocated_def roots_def d0_def)
  have al3: "allocated d3"
    using al0 nx cm by (auto simp: allocated_def roots_def d3_def)
  have keep: "kept d3 r (obj_value d2 r)" if "fresh d0 d2 r" for r
  proof (cases r)
    case None then show ?thesis by (simp add: kept_def obj_value_def)
  next
    case (Some a)
    with that have "next_addr d0 \<le> a" "a < next_addr d2" by (simp_all add: fresh_def)
    with al0 cm Some show ?thesis
      by (auto simp: kept_def obj_value_def d3_def roots_def)
  qed
  have k3c: "kept d3 c (snapshot_value d0 (cmdclass d0))" using keep[OF fc] vals by simp
  have k3x: "kept d3 x (snapshot_value d0 (ext_modules d0))" using keep[OF fx] vals by simp
  from respects_store_kept[OF rf al3 bf[unfolded d3] k3c] respects_store_kept[OF rf al3 bf[unfolded d3] k3x]
  have al4: "allocated d4" and k4c: "kept d4 c (snapshot_value d0 (cmdclass d0))"
    and k4x: "kept d4 x (snapshot_value d0 (ext_modules d0))" by simp_all
  from respects_store_kept[OF rr al4 br k4c] respects_store_kept[OF rr al4 br k4x]
  have k5c: "kept d5 c (snapshot_value d0 (cmdclass d0))"
    and k5x: "kept d5 x (snapshot_value d0 (ext_modules d0))" by simp_all
  have ds: "distribution s' = d5\<lparr>cmdclass := c, ext_modules := x\<rparr>" by (simp add: s')
  show "obj_value (distribution s') (cmdclass (distribution s')) =
           snapshot_value (distribution s) (cmdclass (distribution s))"
    using kept_obj_value[OF k5c] by (simp add: ds obj_value_def d0_def)
  show "obj_value (distribution s') (ext_modules (distribution s')) =
           snapshot_value (distribution s) (ext_modules (distribution s))"
    using kept_obj_value[OF k5x] by (simp add: ds obj_value_def d0_def)
  show "allocated (distribution s')"
    using k5c k5x by (auto simp: ds allocated_def roots_def kept_def split: option.splits)
qed

subsection \<open>Configurations that raise, and the flag\<close>

lemmas build_defs = build_def finalize_options_def run_def super_run_def
  super_finalize_options_def assign_compiled_def announce_def store_options_def init_def
  py_copy_def alloc_def Let_def

lemma finalize_options_import_raises:
  "should_cythonize s \<Longrightarrow> import_Cython E = Inl e \<Longrightarrow>
   finalize_options E s = Inl (e, store_options s)"
  by (simp add: finalize_options_def)

lemma finalize_options_cythonize_raises:
  "should_cythonize s \<Longrightarrow> import_Cython E = Inr v \<Longrightarrow>
   cythonize E (module_files (path_sep E) (modules_to_compile E)) 3 [''**/__init__.py''] = Inl e \<Longrightarrow>
   finalize_options E s =
     Inl (e, announce (compiling_message (length (module_files (path_sep E) (modules_to_compile E))) v)
               INFO (store_options s))"
  by (simp add: finalize_options_def)

lemma should_cythonize_store_options: "should_cythonize (store_options s) = should_cythonize s"
  by (simp add: store_options_def split: prod.splits)

lemma should_cythonize_finalize_options:
  "should_cythonize (final_state (finalize_options E s)) = should_cythonize s"
  by (auto simp: finalize_options_def super_finalize_options_def assign_compiled_def announce_def
      alloc_def Let_def should_cythonize_store_options split: sum.splits prod.splits)

lemma should_cythonize_run: "should_cythonize (final_state (run E s)) = should_cythonize s"
  by (auto simp: run_def super_run_def Let_def split: sum.splits prod.splits option.splits)

lemma should_cythonize_build: "should_cythonize (final_state (build E s)) = should_cythonize s"
proof (cases "finalize_options E s")
  case (Inl r)
  with should_cythonize_finalize_options[of E s] show ?thesis by (simp add: build_def)
next
  case (Inr s1)
  with should_cythonize_finalize_options[of E s] should_cythonize_run[of E s1]
  show ?thesis by (simp add: build_def)
qed

lemma replace_char_append:
  "replace_char c new (xs @ ys) = replace_char c new xs @ replace_char c new ys"
  by (simp add: replace_char_def)

lemma stored_options_finalize_options:
  "should_cythonize s \<Longrightarrow>
   stored_options (final_state (finalize_options E s)) = stored_options (store_options s)"
  by (auto simp: finalize_options_def super_finalize_options_def assign_compiled_def announce_def
      alloc_def Let_def split: sum.splits prod.splits)

lemma store_options_fields:
  assumes al: "allocated (distribution s)"
  shows "cmdclass (distribution (store_options s)) = cmdclass (distribution s)"
    and "ext_modules (distribution (store_options s)) = ext_modules (distribution s)"
    and "same_fields (distribution s) (distribution (store_options s))"
proof -
  obtain c x d2 where so: "store_options s =
      s\<lparr>stored_options := (stored_options s)(''cmdclass'' \<mapsto> c, ''ext_modules'' \<mapsto> x),
        distribution := d2, effects := effects s @ [StoreOptions c x]\<rparr>"
    and cm: "cmdclass d2 = cmdclass (distribution s)"
    and ex: "ext_modules d2 = ext_modules (distribution s)"
    and hp: "\<And>a. a < next_addr (distribution s) \<Longrightarrow> heap d2 a = heap (distribution s) a"
    by (rule store_options_shape[of s]) blast
  have d2: "distribution (store_options s) = d2" by (simp add: so)
  show "cmdclass (distribution (store_options s)) = cmdclass (distribution s)"
    and "ext_modules (distribution (store_options s)) = ext_modules (distribution s)"
    by (simp_all add: d2 cm ex)
  have "obj_value d2 r = obj_value (distribution s) r"
    if "r = cmdclass (distribution s) \<or> r = ext_modules (distribution s)" for r
  proof (cases r)
    case None
    then show ?thesis by (simp add: obj_value_def)
  next
    case (Some a)
    with that al have "a < next_addr (distribution s)"
      by (auto simp: allocated_def roots_def)
    with hp Some show ?thesis by (simp add: obj_value_def)
  qed
  then show "same_fields (distribution s) (distribution (store_options s))"
    unfolding d2 same_fields_def cm ex by simp
qed

lemma build_effects:
  assumes on: "should_cythonize s"
  shows "\<exists>c x rest.
           effects (final_state (build E s)) = effects s @ StoreOptions c x # rest \<and>
           stored_options (final_state (build E s)) =
             (stored_options s)(''cmdclass'' \<mapsto> c, ''ext_modules'' \<mapsto> x) \<and>
           stored_options (store_options s) =
             (stored_options s)(''cmdclass'' \<mapsto> c, ''ext_modules'' \<mapsto> x) \<and>
           (case raised (build E s) of
              None \<Rightarrow> (\<exists>m r. rest = [Announce INFO m, SetExtModules (Some r), SuperFinalizeOptions,
                                     SuperRun, SetCmdclass c, SetExtModules x])
            | Some e \<Rightarrow> write_backs rest = 0)"
proof -
  obtain c x d2 where so: "store_options s =
      s\<lparr>stored_options := (stored_options s)(''cmdclass'' \<mapsto> c, ''ext_modules'' \<mapsto> x),
        distribution := d2, effects := effects s @ [StoreOptions c x]\<rparr>"
    by (rule store_options_shape[of s]) blast
  have "\<exists>rest.
           effects (final_state (build E s)) = effects s @ StoreOptions c x # rest \<and>
           stored_options (final_state (build E s)) =
             (stored_options s)(''cmdclass'' \<mapsto> c, ''ext_modules'' \<mapsto> x) \<and>
           (case raised (build E s) of
              None \<Rightarrow> (\<exists>m r. rest = [Announce INFO m, SetExtModules (Some r), SuperFinalizeOptions,
                                     SuperRun, SetCmdclass c, SetExtModules x])
            | Some e \<Rightarrow> write_backs rest = 0)"
    using on
    by (auto simp: build_def finalize_options_def run_def super_run_def super_finalize_options_def
        assign_compiled_def announce_def alloc_def Let_def so write_backs_def
        split: sum.splits prod.splits)
  then show ?thesis using so by auto
qed

lemma build_effects_raised:
  assumes on: "should_cythonize s" and ra: "raised (build E s) = Some e"
  shows "\<exists>c x rest.
           effects (final_state (build E s)) = effects s @ StoreOptions c x # rest \<and>
           (rest = [] \<or>
            (\<exists>m. rest = [Announce INFO m]) \<or>
            (\<exists>m r. rest = [Announce INFO m, SetExtModules (Some r), SuperFinalizeOptions]) \<or>
            (\<exists>m r. rest = [Announce INFO m, SetExtModules (Some r), SuperFinalizeOptions,
                              SuperRun]))"
proof -
  obtain c x d2 where so: "store_options s =
      s\<lparr>stored_options := (stored_options s)(''cmdclass'' \<mapsto> c, ''ext_modules'' \<mapsto> x),
        distribution := d2, effects := effects s @ [StoreOptions c x]\<rparr>"
    by (rule store_options_shape[of s]) blast
  have "\<exists>rest.
           effects (final_state (build E s)) = effects s @ StoreOptions c x # rest \<and>
           (rest = [] \<or>
            (\<exists>m. rest = [Announce INFO m]) \<or>
            (\<exists>m r. rest = [Announce INFO m, SetExtModules (Some r), SuperFinalizeOptions]) \<or>
            (\<exists>m r. rest = [Announce INFO m, SetExtModules (Some r), SuperFinalizeOptions,
                              SuperRun]))"
    using on ra
    by (auto simp: build_def finalize_options_def run_def super_run_def super_finalize_options_def
        assign_compiled_def announce_def alloc_def Let_def so
        split: sum.splits prod.splits)
  then show ?thesis by blast
qed

lemma snapshot_of_snapshot:
  assumes "obj_value d r = snapshot_value d0 r0"
  shows "snapshot_value d r = obj_value d r"
proof (cases r)
  case None
  then show ?thesis by (simp add: snapshot_value_def obj_value_def truthy_def)
next
  case (Some a)
  with assms have t: "truthy d0 r0" and e: "obj_value d0 r0 = Some (heap d a)"
    by (auto simp: snapshot_value_def obj_value_def split: if_splits)
  then obtain a0 where "r0 = Some a0" "py_bool (heap d0 a0)" "heap d0 a0 = heap d a"
    by (cases r0) (auto simp: truthy_def obj_value_def)
  with Some show ?thesis by (simp add: snapshot_value_def truthy_def)
qed

lemma scenario_build_returns:
  "should_cythonize s \<Longrightarrow> \<exists>s'. build scenario_env s = Inr s'"
  by (simp add: build_def finalize_options_def run_def super_run_def super_finalize_options_def
      assign_compiled_def announce_def store_options_def alloc_def Let_def
      scenario_env_def posix_env_def in_place_run_def split: prod.splits)

section \<open>The claims\<close>

subsection \<open>The feature flag\<close>

text \<open>
  Claim C6. The flag is fixed when the command is constructed, by comparing the
  environment variable \<^verbatim>\<open>CYTHONIZE_NLTK\<close> with the string \<^verbatim>\<open>true\<close> for equality; a later
  invocation, in whatever environment, leaves it as it is. For an unset variable and for
  the values \<^verbatim>\<open>True\<close>, \<^verbatim>\<open>1\<close> and \<^verbatim>\<open>yes\<close> the flag is false. The module-level
  requirement list makes the same comparison.
\<close>

theorem flag_is_equality_with_true:
  "should_cythonize (init E d) = (getenv E ''CYTHONIZE_NLTK'' = Some ''true'') \<and>
   should_cythonize (final_state (build E' (init E d))) =
     (getenv E ''CYTHONIZE_NLTK'' = Some ''true'') \<and>
   setup_reqs E =
     (if getenv E ''CYTHONIZE_NLTK'' = Some ''true'' then [''Cython >= 0.28.5''] else []) \<and>
   \<not> should_cythonize (init (E\<lparr>getenv := Map.empty\<rparr>) d) \<and>
   \<not> should_cythonize (init (E\<lparr>getenv := [''CYTHONIZE_NLTK'' \<mapsto> ''True'']\<rparr>) d) \<and>
   \<not> should_cythonize (init (E\<lparr>getenv := [''CYTHONIZE_NLTK'' \<mapsto> ''1'']\<rparr>) d) \<and>
   \<not> should_cythonize (init (E\<lparr>getenv := [''CYTHONIZE_NLTK'' \<mapsto> ''yes'']\<rparr>) d)"
  by (simp add: should_cythonize_build) (simp add: init_def setup_reqs_def)

subsection \<open>From selectors to the compiler's input\<close>

text \<open>
  Claim C4, as the code has it. When the flag is set and the configuration returns, the
  compiler was given one path per selector, each selector with its dots replaced by the
  path separator and \<^verbatim>\<open>.py\<close> appended, together with the exclusion pattern
  \<^verbatim>\<open>**/__init__.py\<close>; a wildcard selector \<^verbatim>\<open>pkg.*\<close> becomes the single pattern
  \<^verbatim>\<open>pkg/*.py\<close>, left to the compiler to expand. The one message announced reports the
  number of selectors.
\<close>

theorem selectors_become_one_path_each:
  assumes "should_cythonize s" "finalize_options E s = Inr s1"
  shows "\<exists>v exts. import_Cython E = Inr v \<and>
           cythonize E
             (map (\<lambda>name. replace_char CHR ''.'' (path_sep E) name @ ''.py'') (modules_to_compile E))
             3 [''**/__init__.py''] = Inr exts \<and>
           length (module_files (path_sep E) (modules_to_compile E)) =
             length (modules_to_compile E) \<and>
           filter is_message (effects s1) =
             filter is_message (effects s) @
               [Announce INFO (''Compiling '' @ str_nat (length (modules_to_compile E)) @
                                '' modules using Cython '' @ v)] \<and>
           (\<forall>pkg. replace_char CHR ''.'' (path_sep E) (pkg @ ''.*'') @ ''.py'' =
                     replace_char CHR ''.'' (path_sep E) pkg @ path_sep E @ ''*.py'')"
proof -
  from finalize_options_returns[OF assms] obtain v exts d4 where
    imp: "import_Cython E = Inr v"
    and cy: "cythonize E (module_files (path_sep E) (modules_to_compile E)) 3 [''**/__init__.py'']
               = Inr exts"
    and s1: "s1 = (compile_stage E v exts s)\<lparr>distribution := d4,
             effects := effects (compile_stage E v exts s) @ [SuperFinalizeOptions]\<rparr>"
    by blast
  obtain c x d2 where cs: "compile_stage E v exts s =
       s\<lparr>stored_options := (stored_options s)(''cmdclass'' \<mapsto> c, ''ext_modules'' \<mapsto> x),
         distribution := d2\<lparr>heap := (heap d2)(next_addr d2 := PyList exts),
                            next_addr := Suc (next_addr d2), ext_modules := Some (next_addr d2)\<rparr>,
         effects := effects s @ [StoreOptions c x,
            Announce INFO (compiling_message (length (module_files (path_sep E) (modules_to_compile E))) v),
            SetExtModules (Some (next_addr d2))]\<rparr>"
    by (rule compile_stage_shape[of E v exts s]) blast
  have "effects s1 = effects s @ [StoreOptions c x,
            Announce INFO (compiling_message (length (modules_to_compile E)) v),
            SetExtModules (Some (next_addr d2)), SuperFinalizeOptions]"
    by (simp add: s1 cs module_files_def)
  then show ?thesis using imp cy
    by (simp add: module_files_def compiling_message_def replace_char_append)
       (simp add: replace_char_def)
qed

text \<open>
  The scenario of the specification: the compiler receives \<^verbatim>\<open>pkgB/*.py\<close>, and the
  message reports 2, the number of selectors.
\<close>

theorem selectors_become_one_path_each_witness:
  "should_cythonize (init scenario_env nltk_distribution) \<and>
   (\<exists>s1. finalize_options scenario_env (init scenario_env nltk_distribution) = Inr s1 \<and>
      cythonize scenario_env [''pkgA/mod1.py'', ''pkgB/*.py''] 3 [''**/__init__.py'']
        = Inr [Extension ''pkgA/mod1.py'' [''pkgA/mod1.py''],
               Extension ''pkgB/*.py'' [''pkgB/*.py'']] \<and>
      filter is_message (effects s1) =
        [Announce INFO ''Compiling 2 modules using Cython 0.29.13''])"
proof -
  let ?s = "init scenario_env nltk_distribution"
  have on: "should_cythonize ?s" by (simp add: init_def scenario_env_def posix_env_def)
  have "\<exists>s1. finalize_options scenario_env ?s = Inr s1"
    by (simp add: build_defs scenario_env_def posix_env_def nltk_distribution_def)
  then obtain s1 where fin: "finalize_options scenario_env ?s = Inr s1" by blast
  from selectors_become_one_path_each[OF on fin]
  have "filter is_message (effects s1) =
        [Announce INFO ''Compiling 2 modules using Cython 0.29.13'']"
    by (simp add: scenario_env_def posix_env_def init_def str_nat.simps)
  moreover have "cythonize scenario_env [''pkgA/mod1.py'', ''pkgB/*.py''] 3 [''**/__init__.py'']
        = Inr [Extension ''pkgA/mod1.py'' [''pkgA/mod1.py''],
               Extension ''pkgB/*.py'' [''pkgB/*.py'']]"
    by (simp add: scenario_env_def posix_env_def)
  ultimately show ?thesis using on fin by blast
qed

text \<open>
  Against C4 as stated: for the selectors \<^verbatim>\<open>pkgA.mod1\<close> and \<^verbatim>\<open>pkgB.*\<close> the list built for
  the compiler is not \<^verbatim>\<open>pkgA/mod1.py, pkgB/mod2.py\<close>; the wildcard is still in it.
\<close>

theorem wildcard_is_not_expanded:
  "module_files (path_sep scenario_env) (modules_to_compile scenario_env) =
     [''pkgA/mod1.py'', ''pkgB/*.py''] \<and>
   module_files (path_sep scenario_env) (modules_to_compile scenario_env) \<noteq>
     [''pkgA/mod1.py'', ''pkgB/mod2.py'']"
  by (simp add: scenario_env_def posix_env_def module_files_def replace_char_def)

text \<open>
  Claim C5, as the code has it. When the flag is set, Cython imports and the compiler
  raises an error for the file list, the invocation ends with that very error, and the
  progress message has been announced once already, right after the snapshot: the
  announcement precedes the compiler call.
\<close>

theorem compiler_error_follows_the_message:
  assumes on: "should_cythonize s" and imp: "import_Cython E = Inr v"
    and cy: "cythonize E (module_files (path_sep E) (modules_to_compile E)) 3 [''**/__init__.py'']
               = Inl e"
  shows "raised (build E s) = Some e \<and>
         (\<exists>c x. effects (final_state (build E s)) =
            effects s @ [StoreOptions c x,
                         Announce INFO (compiling_message (length (modules_to_compile E)) v)])"
proof -
  obtain c x d2 where so: "store_options s =
      s\<lparr>stored_options := (stored_options s)(''cmdclass'' \<mapsto> c, ''ext_modules'' \<mapsto> x),
        distribution := d2, effects := effects s @ [StoreOptions c x]\<rparr>"
    by (rule store_options_shape[of s]) blast
  have "build E s =
      Inl (e, announce (compiling_message (length (module_files (path_sep E) (modules_to_compile E))) v)
               INFO (store_options s))"
    using finalize_options_cythonize_raises[OF on imp cy] by (simp add: build_def)
  then show ?thesis by (simp add: so announce_def module_files_def)
qed

theorem compiler_error_follows_the_message_witness:
  "should_cythonize (init missing_module_env nltk_distribution) \<and>
   import_Cython missing_module_env = Inr ''0.29.13'' \<and>
   raised (build missing_module_env (init missing_module_env nltk_distribution)) =
     Some (ConfigurationError ''nltk/grammar.py'') \<and>
   (\<exists>c x. effects (final_state (build missing_module_env (init missing_module_env nltk_distribution))) =
     [StoreOptions c x, Announce INFO ''Compiling 18 modules using Cython 0.29.13''])"
proof -
  let ?E = missing_module_env and ?s = "init missing_module_env nltk_distribution"
  have on: "should_cythonize ?s" by (simp add: init_def missing_module_env_def posix_env_def)
  have imp: "import_Cython ?E = Inr ''0.29.13''"
    by (simp add: missing_module_env_def posix_env_def)
  have cy: "cythonize ?E (module_files (path_sep ?E) (modules_to_compile ?E)) 3 [''**/__init__.py'']
             = Inl (ConfigurationError ''nltk/grammar.py'')"
    by (simp add: missing_module_env_def posix_env_def)
  have n: "compiling_message (length (modules_to_compile ?E)) ''0.29.13'' =
             ''Compiling 18 modules using Cython 0.29.13''"
    by (simp add: missing_module_env_def posix_env_def MODULES_TO_COMPILE_def
        compiling_message_def str_nat.simps)
  have e: "effects ?s = []" by (simp add: init_def)
  from compiler_error_follows_the_message[OF on imp cy] on imp show ?thesis
    unfolding n e by simp
qed

text \<open>
  Against C5 as stated: the compiler rejects a module of the script's list, and the
  message is among the effects of the failed invocation.
\<close>

theorem message_emitted_before_compiler_error:
  "should_cythonize (init missing_module_env nltk_distribution) \<and>
   raised (build missing_module_env (init missing_module_env nltk_distribution)) =
     Some (ConfigurationError ''nltk/grammar.py'') \<and>
   effects (final_state (build missing_module_env (init missing_module_env nltk_distribution))) =
     [StoreOptions (Some 1) None, Announce INFO ''Compiling 18 modules using Cython 0.29.13'']"
  by (simp add: build_defs missing_module_env_def posix_env_def nltk_distribution_def
      MODULES_TO_COMPILE_def module_files_def compiling_message_def str_nat.simps)

subsection \<open>The snapshot\<close>

text \<open>
  Claim C3, as the code has it. When the flag is set, the configuration phase, however it
  ends, leaves in \<^verbatim>\<open>stored_options\<close> for each of the two attributes either \<^verbatim>\<open>None\<close>,
  exactly when the attribute was \<^verbatim>\<open>None\<close> or an empty container, or a reference to a
  newly made object that holds, when the snapshot is taken, the contents of the attribute.
\<close>

theorem snapshot_holds_copies_or_None:
  assumes on: "should_cythonize s" and al: "allocated (distribution s)"
  shows "\<exists>c x. stored_options (final_state (finalize_options E s)) ''cmdclass'' = Some c \<and>
           stored_options (final_state (finalize_options E s)) ''ext_modules'' = Some x \<and>
           (c = None \<longleftrightarrow> \<not> truthy (distribution s) (cmdclass (distribution s))) \<and>
           (x = None \<longleftrightarrow> \<not> truthy (distribution s) (ext_modules (distribution s))) \<and>
           obj_value (distribution (store_options s)) c =
             snapshot_value (distribution s) (cmdclass (distribution s)) \<and>
           obj_value (distribution (store_options s)) x =
             snapshot_value (distribution s) (ext_modules (distribution s)) \<and>
           fresh (distribution s) (distribution (store_options s)) c \<and>
           fresh (distribution s) (distribution (store_options s)) x"
proof -
  obtain c x d2 where so: "store_options s =
      s\<lparr>stored_options := (stored_options s)(''cmdclass'' \<mapsto> c, ''ext_modules'' \<mapsto> x),
        distribution := d2, effects := effects s @ [StoreOptions c x]\<rparr>"
    and fr: "fresh (distribution s) d2 c" "fresh (distribution s) d2 x"
    and vals0: "allocated (distribution s) \<Longrightarrow>
       obj_value d2 c = snapshot_value (distribution s) (cmdclass (distribution s)) \<and>
       obj_value d2 x = snapshot_value (distribution s) (ext_modules (distribution s))"
    by (rule store_options_shape[of s]) blast
  from vals0[OF al]
  have vals: "obj_value d2 c = snapshot_value (distribution s) (cmdclass (distribution s))"
             "obj_value d2 x = snapshot_value (distribution s) (ext_modules (distribution s))"
    by simp_all
  have n1: "c = None \<longleftrightarrow> \<not> truthy (distribution s) (cmdclass (distribution s))"
    using vals(1) obj_value_None[of d2 c] snapshot_value_None by metis
  have n2: "x = None \<longleftrightarrow> \<not> truthy (distribution s) (ext_modules (distribution s))"
    using vals(2) obj_value_None[of d2 x] snapshot_value_None by metis
  have st: "stored_options (final_state (finalize_options E s)) =
              (stored_options s)(''cmdclass'' \<mapsto> c, ''ext_modules'' \<mapsto> x)"
    using stored_options_finalize_options[OF on, of E] by (simp add: so)
  have d2: "distribution (store_options s) = d2" by (simp add: so)
  show ?thesis using st n1 n2 vals fr unfolding d2 by simp
qed

text \<open>A distribution with a hand-written extension module: both attributes are copied.\<close>

theorem snapshot_holds_copies_or_None_witness:
  "should_cythonize (init posix_env ext_distribution) \<and> allocated ext_distribution \<and>
   stored_options (final_state (finalize_options posix_env (init posix_env ext_distribution))) ''cmdclass''
      = Some (Some 2) \<and>
   stored_options (final_state (finalize_options posix_env (init posix_env ext_distribution))) ''ext_modules''
      = Some (Some 3) \<and>
   obj_value (distribution (store_options (init posix_env ext_distribution))) (Some 2) = 
      Some (PyDict [(''build'', ''build_cythonized'')]) \<and>
   obj_value (distribution (store_options (init posix_env ext_distribution))) (Some 3) = 
      Some (PyList [Extension ''nltk.speedups'' [''nltk/speedups.c'']])"
proof -
  let ?s = "init posix_env ext_distribution"
  have on: "should_cythonize ?s" by (simp add: init_def posix_env_def)
  have al: "allocated ext_distribution" by (simp add: allocated_def roots_def ext_distribution_def)
  have al': "allocated (distribution ?s)" using al by (simp add: init_def)
  have 1: "stored_options (final_state (finalize_options posix_env ?s)) ''cmdclass'' = Some (Some 2)"
   and 2: "stored_options (final_state (finalize_options posix_env ?s)) ''ext_modules'' = Some (Some 3)"
    by (simp_all add: build_defs posix_env_def ext_distribution_def)
  have sv: "snapshot_value (distribution ?s) (cmdclass (distribution ?s)) = Some (PyDict [(''build'', ''build_cythonized'')])"
    "snapshot_value (distribution ?s) (ext_modules (distribution ?s)) = Some (PyList [Extension ''nltk.speedups'' [''nltk/speedups.c'']])"
    by (simp_all add: snapshot_value_def truthy_def obj_value_def init_def ext_distribution_def)
  from snapshot_holds_copies_or_None[OF on al', of posix_env] show ?thesis unfolding 1 2 sv using on al by auto
qed


text \<open>
  Against C3 as stated: the script's own distribution has no extension modules, and an
  empty list of them is a possible input; in both cases the snapshot records \<^verbatim>\<open>None\<close>,
  not an empty list.
\<close>

theorem missing_value_is_stored_as_None:
  "should_cythonize (init posix_env nltk_distribution) \<and>
   ext_modules nltk_distribution = None \<and>
   stored_options (final_state (finalize_options posix_env (init posix_env nltk_distribution)))
     ''ext_modules'' = Some None \<and>
   should_cythonize (init posix_env empty_ext_distribution) \<and>
   obj_value empty_ext_distribution (ext_modules empty_ext_distribution) = Some (PyList []) \<and>
   stored_options (final_state (finalize_options posix_env (init posix_env empty_ext_distribution)))
     ''ext_modules'' = Some None"
  by (simp add: build_defs posix_env_def nltk_distribution_def empty_ext_distribution_def obj_value_def)

subsection \<open>Errors of the compiler during configuration\<close>

text \<open>
  Claim C10. When the flag is set and the import of Cython or the call of the compiler
  raises, the configuration, and with it the invocation, ends with that error; the two
  attributes of the distribution refer to the objects they referred to before, these hold
  what they held, and the command has made no assignment to the distribution.
\<close>

theorem failed_compilation_leaves_distribution:
  assumes on: "should_cythonize s" and al: "allocated (distribution s)"
    and err: "import_Cython E = Inl e \<or>
      (\<exists>v. import_Cython E = Inr v \<and>
           cythonize E (module_files (path_sep E) (modules_to_compile E)) 3 [''**/__init__.py''] = Inl e)"
  shows "raised (finalize_options E s) = Some e \<and> raised (build E s) = Some e \<and>
         cmdclass (distribution (final_state (build E s))) = cmdclass (distribution s) \<and>
         ext_modules (distribution (final_state (build E s))) = ext_modules (distribution s) \<and>
         same_fields (distribution s) (distribution (final_state (build E s))) \<and>
         filter assigns (effects (final_state (build E s))) = filter assigns (effects s)"
proof -
  have ef: "filter assigns (effects (store_options s)) = filter assigns (effects s)"
    by (simp add: store_options_def split: prod.splits)
  from err show ?thesis
  proof
    assume "import_Cython E = Inl e"
    from finalize_options_import_raises[OF on this]
    have "finalize_options E s = Inl (e, store_options s)" .
    then show ?thesis using store_options_fields[OF al] ef by (simp add: build_def)
  next
    assume "\<exists>v. import_Cython E = Inr v \<and>
           cythonize E (module_files (path_sep E) (modules_to_compile E)) 3 [''**/__init__.py''] = Inl e"
    then obtain v where "import_Cython E = Inr v" 
       "cythonize E (module_files (path_sep E) (modules_to_compile E)) 3 [''**/__init__.py''] = Inl e"
      by blast
    from finalize_options_cythonize_raises[OF on this]
    show ?thesis using store_options_fields[OF al] ef by (simp add: build_def announce_def)
  qed
qed

theorem failed_compilation_leaves_distribution_witness:
  "should_cythonize (init missing_module_env nltk_distribution) \<and> allocated nltk_distribution \<and>
   raised (finalize_options missing_module_env (init missing_module_env nltk_distribution)) =
     Some (ConfigurationError ''nltk/grammar.py'') \<and>
   cmdclass (distribution (final_state (build missing_module_env (init missing_module_env nltk_distribution)))) = Some 0 \<and>
   ext_modules (distribution (final_state (build missing_module_env (init missing_module_env nltk_distribution)))) = None \<and>
   obj_value (distribution (final_state (build missing_module_env (init missing_module_env nltk_distribution)))) (Some 0) =
      Some (PyDict [(''build'', ''build_cythonized'')]) \<and>
   filter assigns (effects (final_state (build missing_module_env (init missing_module_env nltk_distribution)))) = [] \<and>
   should_cythonize (init no_cython_env nltk_distribution) \<and>
   raised (finalize_options no_cython_env (init no_cython_env nltk_distribution)) =
     Some (ImportError ''No module named Cython'') \<and>
   ext_modules (distribution (final_state (build no_cython_env (init no_cython_env nltk_distribution)))) = None"
proof -
  let ?E = missing_module_env and ?s = "init missing_module_env nltk_distribution"
  let ?E' = no_cython_env and ?s' = "init no_cython_env nltk_distribution"
  have on: "should_cythonize ?s" by (simp add: init_def missing_module_env_def posix_env_def)
  have on': "should_cythonize ?s'" by (simp add: init_def no_cython_env_def posix_env_def)
  have al: "allocated nltk_distribution" by (simp add: allocated_def roots_def nltk_distribution_def)
  have al1: "allocated (distribution ?s)" and al2: "allocated (distribution ?s')"
    using al by (simp_all add: init_def)
  have err: "import_Cython ?E = Inl (ConfigurationError ''nltk/grammar.py'') \<or>
      (\<exists>v. import_Cython ?E = Inr v \<and>
           cythonize ?E (module_files (path_sep ?E) (modules_to_compile ?E)) 3 [''**/__init__.py'']
             = Inl (ConfigurationError ''nltk/grammar.py''))"
    by (simp add: missing_module_env_def posix_env_def)
  have err': "import_Cython ?E' = Inl (ImportError ''No module named Cython'') \<or>
      (\<exists>v. import_Cython ?E' = Inr v \<and>
           cythonize ?E' (module_files (path_sep ?E') (modules_to_compile ?E')) 3 [''**/__init__.py'']
             = Inl (ImportError ''No module named Cython''))"
    by (simp add: no_cython_env_def posix_env_def)
  have d: "distribution ?s = nltk_distribution" "distribution ?s' = nltk_distribution"
    "effects ?s = []" by (simp_all add: init_def)
  have v: "cmdclass nltk_distribution = Some 0" "ext_modules nltk_distribution = None"
    "obj_value nltk_distribution (Some 0) = Some (PyDict [(''build'', ''build_cythonized'')])"
    by (simp_all add: nltk_distribution_def obj_value_def)
  note a = failed_compilation_leaves_distribution[OF on al1 err, unfolded d same_fields_def v]
  note b = failed_compilation_leaves_distribution[OF on' al2 err', unfolded d same_fields_def v]
  from a have "obj_value (distribution (final_state (build ?E ?s))) (Some 0) =
      Some (PyDict [(''build'', ''build_cythonized'')])" by metis
  with a b on on' al show ?thesis by simp
qed


subsection \<open>The order of the effects\<close>

text \<open>
  Claim C9, as the code has it. When the flag is set, the first effect of an invocation
  is the snapshot, taken while the two attributes of the distribution are still the ones
  the invocation started with. When the invocation returns, the effects that follow are
  the message, the assignment of the compiled modules, the two inherited calls and then,
  once and last, the write-back of the two stored values. When the invocation raises,
  its effects end with the step that raised (the import, the compiler, the inherited
  configuration or the inherited execution) and hold no write-back of either attribute:
  a configuration that raises ends the invocation as it is, and after an inherited
  execution that raises the command only records the call and keeps the distribution
  that the execution left.
\<close>

theorem snapshot_first_write_back_last:
  assumes on: "should_cythonize s"
  shows "(\<exists>c x rest.
           effects (final_state (build E s)) = effects s @ StoreOptions c x # rest \<and>
           cmdclass (distribution (store_options s)) = cmdclass (distribution s) \<and>
           ext_modules (distribution (store_options s)) = ext_modules (distribution s) \<and>
           (case raised (build E s) of
              None \<Rightarrow> (\<exists>m r. rest = [Announce INFO m, SetExtModules (Some r), SuperFinalizeOptions,
                                     SuperRun, SetCmdclass c, SetExtModules x])
            | Some e \<Rightarrow>
                rest = [] \<or>
                (\<exists>m. rest = [Announce INFO m]) \<or>
                (\<exists>m r. rest = [Announce INFO m, SetExtModules (Some r), SuperFinalizeOptions]) \<or>
                (\<exists>m r. rest = [Announce INFO m, SetExtModules (Some r), SuperFinalizeOptions,
                                  SuperRun]))) \<and>
         (\<forall>r. finalize_options E s = Inl r \<longrightarrow> build E s = Inl r) \<and>
         (\<forall>s1 e d'. finalize_options E s = Inr s1 \<and> build_run E (distribution s1) = Inl (e, d') \<longrightarrow>
            build E s = Inl (e, s1\<lparr>distribution := d', effects := effects s1 @ [SuperRun]\<rparr>))"
proof -
  obtain c0 x0 d2 where so: "store_options s =
      s\<lparr>stored_options := (stored_options s)(''cmdclass'' \<mapsto> c0, ''ext_modules'' \<mapsto> x0),
        distribution := d2, effects := effects s @ [StoreOptions c0 x0]\<rparr>"
    and cm: "cmdclass d2 = cmdclass (distribution s)"
    and ex: "ext_modules d2 = ext_modules (distribution s)"
    by (rule store_options_shape[of s]) blast
  have fields: "cmdclass (distribution (store_options s)) = cmdclass (distribution s)"
       "ext_modules (distribution (store_options s)) = ext_modules (distribution s)"
    by (simp_all add: so cm ex)
  have order: "\<exists>c x rest.
           effects (final_state (build E s)) = effects s @ StoreOptions c x # rest \<and>
           cmdclass (distribution (store_options s)) = cmdclass (distribution s) \<and>
           ext_modules (distribution (store_options s)) = ext_modules (distribution s) \<and>
           (case raised (build E s) of
              None \<Rightarrow> (\<exists>m r. rest = [Announce INFO m, SetExtModules (Some r), SuperFinalizeOptions,
                                     SuperRun, SetCmdclass c, SetExtModules x])
            | Some e \<Rightarrow>
                rest = [] \<or>
                (\<exists>m. rest = [Announce INFO m]) \<or>
                (\<exists>m r. rest = [Announce INFO m, SetExtModules (Some r), SuperFinalizeOptions]) \<or>
                (\<exists>m r. rest = [Announce INFO m, SetExtModules (Some r), SuperFinalizeOptions,
                                  SuperRun]))"
  proof (cases "raised (build E s)")
    case None
    with build_effects[OF on, of E] fields show ?thesis by auto
  next
    case (Some e)
    from build_effects_raised[OF on Some] obtain c x rest where
      "effects (final_state (build E s)) = effects s @ StoreOptions c x # rest"
      "rest = [] \<or>
            (\<exists>m. rest = [Announce INFO m]) \<or>
            (\<exists>m r. rest = [Announce INFO m, SetExtModules (Some r), SuperFinalizeOptions]) \<or>
            (\<exists>m r. rest = [Announce INFO m, SetExtModules (Some r), SuperFinalizeOptions,
                              SuperRun])"
      by blast
    with fields Some show ?thesis by (intro exI[of _ c] exI[of _ x] exI[of _ rest]) simp
  qed
  have conf: "build E s = Inl r" if "finalize_options E s = Inl r" for r
    using that by (simp add: build_def)
  have exec: "build E s = Inl (e, s1\<lparr>distribution := d', effects := effects s1 @ [SuperRun]\<rparr>)"
    if "finalize_options E s = Inr s1" "build_run E (distribution s1) = Inl (e, d')" for s1 e d'
    using that by (simp add: build_def run_def super_run_def)
  from order conf exec show ?thesis by blast
qed

theorem snapshot_first_write_back_last_witness:
  "should_cythonize (init posix_env nltk_distribution) \<and>
   raised (build posix_env (init posix_env nltk_distribution)) = None \<and>
   (\<exists>c x rest. effects (final_state (build posix_env (init posix_env nltk_distribution))) =
        StoreOptions c x # rest \<and> write_backs rest = 1 \<and>
        last rest = SetExtModules x \<and> rest ! 3 = SuperRun \<and> rest ! 4 = SetCmdclass c)"
proof -
  let ?s = "init posix_env nltk_distribution"
  have on: "should_cythonize ?s" by (simp add: init_def posix_env_def)
  have r: "raised (build posix_env ?s) = None"
    by (simp add: build_defs posix_env_def nltk_distribution_def in_place_run_def)
  have e: "effects ?s = []" by (simp add: init_def)
  from snapshot_first_write_back_last[OF on, of posix_env] obtain c x rest m r where
    "effects (final_state (build posix_env ?s)) = StoreOptions c x # rest"
    "rest = [Announce INFO m, SetExtModules (Some r), SuperFinalizeOptions,
                                     SuperRun, SetCmdclass c, SetExtModules x]"
    unfolding r e by auto
  then have "effects (final_state (build posix_env ?s)) = StoreOptions c x # rest \<and> write_backs rest = 1 \<and>
        last rest = SetExtModules x \<and> rest ! 3 = SuperRun \<and> rest ! 4 = SetCmdclass c"
    by (simp add: write_backs_def)
  with on r show ?thesis by blast
qed


text \<open>
  Against C9 as stated: the inherited execution raises, and the invocation ends after the
  call with no write-back among its effects.
\<close>

theorem no_write_back_when_run_raises:
  "should_cythonize (init failing_run_env nltk_distribution) \<and>
   raised (build failing_run_env (init failing_run_env nltk_distribution)) =
     Some (ExecutionError ''command cc failed'') \<and>
   effects (final_state (build failing_run_env (init failing_run_env nltk_distribution))) =
     [StoreOptions (Some 1) None, Announce INFO ''Compiling 18 modules using Cython 0.29.13'',
      SetExtModules (Some 2), SuperFinalizeOptions, SuperRun] \<and>
   write_backs (effects (final_state (build failing_run_env (init failing_run_env nltk_distribution)))) = 0"
  by (simp add: build_defs failing_run_env_def posix_env_def nltk_distribution_def failing_run_def
      MODULES_TO_COMPILE_def module_files_def compiling_message_def str_nat.simps write_backs_def)


subsection \<open>The flag unset\<close>

text \<open>
  Claim C7, as the code has it. When the flag is false, the configuration and the
  execution are the inherited ones and nothing else: \<^verbatim>\<open>stored_options\<close> stays as it
  was, so no snapshot is made, the command assigns nothing to the distribution, and the
  distribution after the invocation, command table and extension modules included, is the
  one the inherited command alone produces, which need not be the one it started from.
\<close>

theorem flag_off_is_the_inherited_build:
  assumes off: "\<not> should_cythonize s"
  shows "finalize_options E s = super_finalize_options E s \<and>
         run E s = super_run E s \<and>
         stored_options (final_state (build E s)) = stored_options s \<and>
         (case build E s of Inl (e, t) \<Rightarrow> Inl (e, distribution t) | Inr t \<Rightarrow> Inr (distribution t)) =
           inherited_build E (distribution s) \<and>
         filter assigns (effects (final_state (build E s))) = filter assigns (effects s)"
proof -
  have f: "finalize_options E s = super_finalize_options E s"
    using off by (simp add: finalize_options_def)
  have r: "run E t = super_run E t" if "\<not> should_cythonize t" for t
    using that by (auto simp: run_def super_run_def Let_def split: sum.splits prod.splits)
  have b: "build E s = (case super_finalize_options E s of Inl r \<Rightarrow> Inl r | Inr s1 \<Rightarrow> super_run E s1)"
    using off by (auto simp: build_def f r super_finalize_options_def Let_def split: sum.splits prod.splits)
  have st: "stored_options (final_state (build E s)) = stored_options s"
    by (auto simp: b super_finalize_options_def super_run_def Let_def split: sum.splits prod.splits)
  have ih: "(case build E s of Inl (e, t) \<Rightarrow> Inl (e, distribution t) | Inr t \<Rightarrow> Inr (distribution t)) =
           inherited_build E (distribution s)"
    by (auto simp: b inherited_build_def super_finalize_options_def super_run_def Let_def
        split: sum.splits prod.splits)
  have ef: "filter assigns (effects (final_state (build E s))) = filter assigns (effects s)"
    by (auto simp: b super_finalize_options_def super_run_def Let_def split: sum.splits prod.splits)
  from f r[OF off] st ih ef show ?thesis by blast
qed

text \<open>
  The script's distribution with the variable unset, under an inherited execution that
  enters a sub-command into the command table: the result is the inherited one.
\<close>

theorem flag_off_is_the_inherited_build_witness:
  "\<not> should_cythonize (init unset_env nltk_distribution) \<and>
   stored_options (final_state (build unset_env (init unset_env nltk_distribution))) = Map.empty \<and>
   (case build unset_env (init unset_env nltk_distribution) of
      Inl (e, t) \<Rightarrow> Inl (e, distribution t) | Inr t \<Rightarrow> Inr (distribution t)) =
     caching_run nltk_distribution \<and>
   filter assigns (effects (final_state (build unset_env (init unset_env nltk_distribution)))) = []"
proof -
  let ?s = "init unset_env nltk_distribution"
  have off: "\<not> should_cythonize ?s" by (simp add: init_def unset_env_def posix_env_def)
  have i: "stored_options ?s = Map.empty" "distribution ?s = nltk_distribution" "effects ?s = []"
    by (simp_all add: init_def)
  have ih: "inherited_build unset_env nltk_distribution = caching_run nltk_distribution"
    by (simp add: inherited_build_def unset_env_def posix_env_def)
  from flag_off_is_the_inherited_build[OF off, of unset_env] off show ?thesis
    unfolding i ih by simp
qed

text \<open>
  Against C7 as stated: with the flag false and an inherited execution that enters a
  sub-command into the command table, the table after the invocation is not by value the
  table before it.
\<close>

theorem inherited_run_changes_the_table:
  "\<not> should_cythonize (init unset_env nltk_distribution) \<and>
   raised (build unset_env (init unset_env nltk_distribution)) = None \<and>
   obj_value nltk_distribution (cmdclass nltk_distribution) =
     Some (PyDict [(''build'', ''build_cythonized'')]) \<and>
   obj_value (distribution (final_state (build unset_env (init unset_env nltk_distribution))))
     (cmdclass (distribution (final_state (build unset_env (init unset_env nltk_distribution))))) =
     Some (PyDict [(''build'', ''build_cythonized''), (''build_py'', ''build_py'')])"
  by (simp add: build_defs unset_env_def posix_env_def nltk_distribution_def caching_run_def
      obj_value_def)

subsection \<open>Restoration\<close>






text \<open>
  Claim C2, as the code has it. When the flag is set and the invocation returns, each of
  the two attributes holds the very reference that \<^verbatim>\<open>stored_options\<close> holds for it, as
  the snapshot stored it. That reference is \<^verbatim>\<open>None\<close> exactly when the attribute was
  \<^verbatim>\<open>None\<close> or empty before; otherwise it refers to the copy that the snapshot made, an
  object that did not exist before the configuration, and so not to the object the
  attribute referred to then. The copy has, when the snapshot is taken, the contents the
  attribute had before the configuration, and it still has them after the invocation
  when the inherited methods respect the store.
\<close>

theorem restored_references_are_the_copies:
  assumes on: "should_cythonize s" and al: "allocated (distribution s)"
    and ret: "build E s = Inr s'"
  shows "stored_options s' ''cmdclass'' = Some (cmdclass (distribution s')) \<and>
         stored_options s' ''ext_modules'' = Some (ext_modules (distribution s')) \<and>
         stored_options s' = stored_options (store_options s) \<and>
         (cmdclass (distribution s') = None \<longleftrightarrow>
            \<not> truthy (distribution s) (cmdclass (distribution s))) \<and>
         (ext_modules (distribution s') = None \<longleftrightarrow>
            \<not> truthy (distribution s) (ext_modules (distribution s))) \<and>
         fresh (distribution s) (distribution (store_options s)) (cmdclass (distribution s')) \<and>
         fresh (distribution s) (distribution (store_options s)) (ext_modules (distribution s')) \<and>
         (truthy (distribution s) (cmdclass (distribution s)) \<longrightarrow>
            cmdclass (distribution s') \<noteq> cmdclass (distribution s)) \<and>
         (truthy (distribution s) (ext_modules (distribution s)) \<longrightarrow>
            ext_modules (distribution s') \<noteq> ext_modules (distribution s)) \<and>
         obj_value (distribution (store_options s)) (cmdclass (distribution s')) =
           snapshot_value (distribution s) (cmdclass (distribution s)) \<and>
         obj_value (distribution (store_options s)) (ext_modules (distribution s')) =
           snapshot_value (distribution s) (ext_modules (distribution s)) \<and>
         (respects_store (build_finalize_options E) \<and> respects_store (build_run E) \<longrightarrow>
            obj_value (distribution s') (cmdclass (distribution s')) =
              snapshot_value (distribution s) (cmdclass (distribution s)) \<and>
            obj_value (distribution s') (ext_modules (distribution s')) =
              snapshot_value (distribution s) (ext_modules (distribution s)))"
proof -
  define d where "d = distribution s"
  obtain c x d2 where so: "store_options s =
      s\<lparr>stored_options := (stored_options s)(''cmdclass'' \<mapsto> c, ''ext_modules'' \<mapsto> x),
        distribution := d2, effects := effects s @ [StoreOptions c x]\<rparr>"
    and fr: "fresh d d2 c" "fresh d d2 x"
    and vals0: "allocated d \<Longrightarrow>
       obj_value d2 c = snapshot_value d (cmdclass d) \<and>
       obj_value d2 x = snapshot_value d (ext_modules d)"
    unfolding d_def by (rule store_options_shape[of s]) blast
  from vals0 al have vals: "obj_value d2 c = snapshot_value d (cmdclass d)"
    "obj_value d2 x = snapshot_value d (ext_modules d)" by (simp_all add: d_def)
  have n1: "c = None \<longleftrightarrow> \<not> truthy d (cmdclass d)"
    using vals(1) obj_value_None[of d2 c] snapshot_value_None[of d "cmdclass d"] by simp
  have n2: "x = None \<longleftrightarrow> \<not> truthy d (ext_modules d)"
    using vals(2) obj_value_None[of d2 x] snapshot_value_None[of d "ext_modules d"] by simp
  have d2: "distribution (store_options s) = d2" by (simp add: so)
  have "\<exists>c' x'. stored_options s' = (stored_options s)(''cmdclass'' \<mapsto> c', ''ext_modules'' \<mapsto> x') \<and>
           cmdclass (distribution s') = c' \<and> ext_modules (distribution s') = x'"
  proof (rule build_returns[OF on ret], goal_cases)
    case (1 v exts c x d2 d4 d5)
    from 1(12) show ?case by simp
  qed
  then obtain c' x' where
    s': "stored_options s' = (stored_options s)(''cmdclass'' \<mapsto> c', ''ext_modules'' \<mapsto> x')"
    "cmdclass (distribution s') = c'" "ext_modules (distribution s') = x'"
    by blast
  from build_effects[OF on, of E] obtain c'' x'' where
    a: "stored_options (final_state (build E s)) = (stored_options s)(''cmdclass'' \<mapsto> c'', ''ext_modules'' \<mapsto> x'')"
    and b: "stored_options (store_options s) = (stored_options s)(''cmdclass'' \<mapsto> c'', ''ext_modules'' \<mapsto> x'')"
    by blast
  have eq: "stored_options s' = stored_options (store_options s)" using a b ret by simp
  have k1: "stored_options s' ''cmdclass'' = Some c'" and k2: "stored_options s' ''ext_modules'' = Some x'"
    by (simp_all add: s'(1))
  have k3: "stored_options s' ''cmdclass'' = Some c" and k4: "stored_options s' ''ext_modules'' = Some x"
    by (simp_all add: eq so)
  from k1 k3 have c': "c' = c" by simp
  from k2 k4 have x': "x' = x" by simp
  have ne1: "c \<noteq> cmdclass d" if "truthy d (cmdclass d)"
  proof
    assume e: "c = cmdclass d"
    from that obtain a where a: "cmdclass d = Some a" by (cases "cmdclass d") (simp_all add: truthy_def)
    with al have "a < next_addr d" by (simp add: allocated_def roots_def d_def)
    moreover from fr(1) e a have "next_addr d \<le> a" by (simp add: fresh_def)
    ultimately show False by simp
  qed
  have ne2: "x \<noteq> ext_modules d" if "truthy d (ext_modules d)"
  proof
    assume e: "x = ext_modules d"
    from that obtain a where a: "ext_modules d = Some a"
      by (cases "ext_modules d") (simp_all add: truthy_def)
    with al have "a < next_addr d" by (simp add: allocated_def roots_def d_def)
    moreover from fr(2) e a have "next_addr d \<le> a" by (simp add: fresh_def)
    ultimately show False by simp
  qed
  have g1: "stored_options s' ''cmdclass'' = Some (cmdclass (distribution s'))" by (simp add: k1 s'(2))
  have g2: "stored_options s' ''ext_modules'' = Some (ext_modules (distribution s'))" by (simp add: k2 s'(3))
  have refs: "stored_options s' ''cmdclass'' = Some (cmdclass (distribution s')) \<and>
         stored_options s' ''ext_modules'' = Some (ext_modules (distribution s')) \<and>
         stored_options s' = stored_options (store_options s) \<and>
         (cmdclass (distribution s') = None \<longleftrightarrow>
            \<not> truthy (distribution s) (cmdclass (distribution s))) \<and>
         (ext_modules (distribution s') = None \<longleftrightarrow>
            \<not> truthy (distribution s) (ext_modules (distribution s))) \<and>
         fresh (distribution s) (distribution (store_options s)) (cmdclass (distribution s')) \<and>
         fresh (distribution s) (distribution (store_options s)) (ext_modules (distribution s')) \<and>
         (truthy (distribution s) (cmdclass (distribution s)) \<longrightarrow>
            cmdclass (distribution s') \<noteq> cmdclass (distribution s)) \<and>
         (truthy (distribution s) (ext_modules (distribution s)) \<longrightarrow>
            ext_modules (distribution s') \<noteq> ext_modules (distribution s))"
    unfolding d2 d_def[symmetric] s'(2,3) c' x'
    using g1 g2 eq n1 n2 fr ne1 ne2 unfolding s'(2,3) c' x' by simp
  have then1: "obj_value (distribution (store_options s)) (cmdclass (distribution s')) =
           snapshot_value (distribution s) (cmdclass (distribution s))"
    and then2: "obj_value (distribution (store_options s)) (ext_modules (distribution s')) =
           snapshot_value (distribution s) (ext_modules (distribution s))"
    using vals unfolding d2 s'(2,3) c' x' d_def by simp_all
  have now: "obj_value (distribution s') (cmdclass (distribution s')) =
              snapshot_value (distribution s) (cmdclass (distribution s)) \<and>
            obj_value (distribution s') (ext_modules (distribution s')) =
              snapshot_value (distribution s) (ext_modules (distribution s))"
    if "respects_store (build_finalize_options E)" "respects_store (build_run E)"
    using build_restores_values(1,2)[OF on ret al that] by simp
  from refs then1 then2 now show ?thesis by blast
qed


theorem restored_references_are_the_copies_witness:
  "should_cythonize (init scenario_env ext_distribution) \<and> allocated ext_distribution \<and>
   (\<exists>s'. build scenario_env (init scenario_env ext_distribution) = Inr s' \<and>
      stored_options s' ''cmdclass'' = Some (cmdclass (distribution s')) \<and>
      stored_options s' ''ext_modules'' = Some (ext_modules (distribution s')) \<and>
      cmdclass (distribution s') \<noteq> cmdclass ext_distribution \<and>
      ext_modules (distribution s') \<noteq> ext_modules ext_distribution \<and>
      obj_value (distribution s') (cmdclass (distribution s')) =
        Some (PyDict [(''build'', ''build_cythonized'')]) \<and>
      obj_value (distribution s') (ext_modules (distribution s')) =
        Some (PyList [Extension ''nltk.speedups'' [''nltk/speedups.c'']]))"
proof -
  let ?E = scenario_env and ?s = "init scenario_env ext_distribution"
  have on: "should_cythonize ?s" by (simp add: init_def scenario_env_def posix_env_def)
  have al: "allocated ext_distribution" by (simp add: allocated_def roots_def ext_distribution_def)
  have al': "allocated (distribution ?s)" using al by (simp add: init_def)
  have rf: "respects_store (build_finalize_options ?E)"
    by (simp add: scenario_env_def posix_env_def respects_store_Inr)
  have rr: "respects_store (build_run ?E)"
    by (simp add: scenario_env_def posix_env_def respects_store_in_place_run)
  from scenario_build_returns[OF on] obtain s' where b: "build ?E ?s = Inr s'" by blast
  have t: "truthy (distribution ?s) (cmdclass (distribution ?s))"
     "truthy (distribution ?s) (ext_modules (distribution ?s))"
    by (simp_all add: truthy_def init_def ext_distribution_def)
  have d: "distribution ?s = ext_distribution" by (simp add: init_def)
  have sv: "snapshot_value ext_distribution (cmdclass ext_distribution) =
              Some (PyDict [(''build'', ''build_cythonized'')])"
    "snapshot_value ext_distribution (ext_modules ext_distribution) =
              Some (PyList [Extension ''nltk.speedups'' [''nltk/speedups.c'']])"
    by (simp_all add: snapshot_value_def truthy_def obj_value_def ext_distribution_def)
  from restored_references_are_the_copies[OF on al' b] t rf rr have
      "stored_options s' ''cmdclass'' = Some (cmdclass (distribution s'))"
      "stored_options s' ''ext_modules'' = Some (ext_modules (distribution s'))"
      "cmdclass (distribution s') \<noteq> cmdclass ext_distribution"
      "ext_modules (distribution s') \<noteq> ext_modules ext_distribution"
      "obj_value (distribution s') (cmdclass (distribution s')) =
        Some (PyDict [(''build'', ''build_cythonized'')])"
      "obj_value (distribution s') (ext_modules (distribution s')) =
        Some (PyList [Extension ''nltk.speedups'' [''nltk/speedups.c'']])"
    unfolding d sv[symmetric] by blast+
  with on al b show ?thesis by blast
qed

text \<open>
  Against C2 as stated: after a complete invocation on the script's distribution the
  command table is the object at address 1, the copy, and not the one at address 0.
\<close>

theorem restored_table_is_another_object:
  "should_cythonize (init posix_env nltk_distribution) \<and>
   raised (build posix_env (init posix_env nltk_distribution)) = None \<and>
   cmdclass nltk_distribution = Some 0 \<and>
   cmdclass (distribution (final_state (build posix_env (init posix_env nltk_distribution)))) = Some 1"
  by (simp add: build_defs posix_env_def nltk_distribution_def in_place_run_def)

subsection \<open>Two invocations in a row\<close>

text \<open>
  Claim C8. Let an invocation with the flag set return, and let a second one, by the
  same or by another command with the flag set, run on the distribution the first one
  left and return as well, the inherited methods respecting the store both times. Then
  the command table and the extension modules after the second invocation are by value
  what they were after the first.
\<close>

theorem second_invocation_restores_the_same:
  assumes on: "should_cythonize s" and al: "allocated (distribution s)"
    and rf: "respects_store (build_finalize_options E)" and rr: "respects_store (build_run E)"
    and once: "build E s = Inr s1"
    and again: "should_cythonize t" "distribution t = distribution s1"
    and rf': "respects_store (build_finalize_options E')" and rr': "respects_store (build_run E')"
    and twice: "build E' t = Inr s2"
  shows "same_fields (distribution s1) (distribution s2)"
proof -
  note first = build_restores_values[OF on once al rf rr]
  have al1: "allocated (distribution t)" using first(3) again(2) by simp
  note second = build_restores_values[OF again(1) twice al1 rf' rr']
  have "obj_value (distribution s2) (cmdclass (distribution s2)) =
          obj_value (distribution s1) (cmdclass (distribution s1))"
    using second(1) snapshot_of_snapshot[OF first(1)] by (simp add: again(2))
  moreover have "obj_value (distribution s2) (ext_modules (distribution s2)) =
          obj_value (distribution s1) (ext_modules (distribution s1))"
    using second(2) snapshot_of_snapshot[OF first(2)] by (simp add: again(2))
  ultimately show ?thesis by (simp add: same_fields_def)
qed

theorem second_invocation_restores_the_same_witness:
  "should_cythonize (init scenario_env ext_distribution) \<and> allocated ext_distribution \<and>
   respects_store (build_finalize_options scenario_env) \<and> respects_store (build_run scenario_env) \<and>
   (\<exists>s1 s2. build scenario_env (init scenario_env ext_distribution) = Inr s1 \<and>
      build scenario_env s1 = Inr s2 \<and>
      same_fields (distribution s1) (distribution s2))"
proof -
  let ?E = scenario_env and ?s = "init scenario_env ext_distribution"
  have on: "should_cythonize ?s" by (simp add: init_def scenario_env_def posix_env_def)
  have al: "allocated ext_distribution" by (simp add: allocated_def roots_def ext_distribution_def)
  have al': "allocated (distribution ?s)" using al by (simp add: init_def)
  have rf: "respects_store (build_finalize_options ?E)"
    by (simp add: scenario_env_def posix_env_def respects_store_Inr)
  have rr: "respects_store (build_run ?E)"
    by (simp add: scenario_env_def posix_env_def respects_store_in_place_run)
  from scenario_build_returns[OF on] obtain s1 where b1: "build ?E ?s = Inr s1" by blast
  have on1: "should_cythonize s1"
    using should_cythonize_build[of ?E ?s] on by (simp add: b1)
  from scenario_build_returns[OF on1] obtain s2 where b2: "build ?E s1 = Inr s2" by blast
  from second_invocation_restores_the_same[OF on al' rf rr b1 on1 refl rf rr b2] on al rf rr b1 b2 show ?thesis by blast
qed


end
